theory Spec2Isabelle
  imports Main
begin

section \<open>The storage engine as the program sees it\<close>

text \<open>
  \<^verbatim>\<open>db_init.py\<close> is a client of Python's \<^verbatim>\<open>sqlite3\<close> module. The engine is not part
  of the repository, so it is modelled here as the environment of the program: a file system
  holding databases, a store of open connection handles, the sequence of engine calls made so
  far, and standard output.
\<close>

datatype constraint = PrimaryKey | NotNull | Unique

record column =
  col_name :: string
  col_type :: string
  col_constraints :: "constraint list"

record table =
  tbl_name :: string
  tbl_columns :: "column list"
  tbl_rows :: "string list list"

record db_view =
  view_name :: string
  view_sql :: string

record db_index =
  idx_name :: string
  idx_table :: string
  idx_columns :: "string list"

text \<open>
  A database is its catalog: the tables with their rows, the views, and the indexes made by
  \<^verbatim>\<open>CREATE INDEX\<close>, each in catalog order. The index the engine keeps by itself for a
  \<^verbatim>\<open>PRIMARY KEY\<close> or \<^verbatim>\<open>UNIQUE\<close> column is not listed: it is the constraint of that column,
  and its reserved name \<^verbatim>\<open>sqlite_autoindex_...\<close> can never be the name of a user's object.
\<close>

record database =
  db_tables :: "table list"
  db_views :: "db_view list"
  db_user_indexes :: "db_index list"

definition empty_db :: database where
  "empty_db = \<lparr>db_tables = [], db_views = [], db_user_indexes = []\<rparr>"

text \<open>
  The engine compares object names without regard to the case of the ASCII letters; all other
  bytes must agree.
\<close>

definition lower_char :: "char \<Rightarrow> char" where
  "lower_char c =
     (case map_of (zip ''ABCDEFGHIJKLMNOPQRSTUVWXYZ'' ''abcdefghijklmnopqrstuvwxyz'') c of
        Some l \<Rightarrow> l
      | None \<Rightarrow> c)"

definition same_name :: "string \<Rightarrow> string \<Rightarrow> bool" where
  "same_name a b = (map lower_char a = map lower_char b)"

definition table_named :: "database \<Rightarrow> string \<Rightarrow> bool" where
  "table_named db name = list_ex (\<lambda>t. same_name (tbl_name t) name) (db_tables db)"

definition view_named :: "database \<Rightarrow> string \<Rightarrow> bool" where
  "view_named db name = list_ex (\<lambda>v. same_name (view_name v) name) (db_views db)"

definition index_named :: "database \<Rightarrow> string \<Rightarrow> bool" where
  "index_named db name = list_ex (\<lambda>i. same_name (idx_name i) name) (db_user_indexes db)"

text \<open>Names that start with \<^verbatim>\<open>sqlite_\<close> are the engine's own.\<close>

definition reserved_name :: "string \<Rightarrow> bool" where
  "reserved_name name = (map lower_char (take 7 name) = ''sqlite_'')"

text \<open>
  The only statement the program issues is a table definition; the flag is the
  \<^verbatim>\<open>IF NOT EXISTS\<close> clause.
\<close>

datatype statement = CreateTable bool string "column list"

text \<open>The exceptions of the \<^verbatim>\<open>sqlite3\<close> module that matter here, with their message.\<close>

datatype error = OperationalError string | ProgrammingError string | DatabaseError string

text \<open>The engine calls of the program, in the names of the Python API.\<close>

datatype api = Connect | Cursor | Execute | Commit | Close

record connection =
  conn_path :: string
  conn_pending :: "database option"

record world =
  files :: "string \<Rightarrow> database option"
  conns :: "(nat \<times> connection) list"
  calls :: "api list"
  stdout :: "string list"

text \<open>
  What the program cannot control is a parameter: \<open>fault\<close> says which engine calls meet a
  storage-access failure (permission denied, invalid path, disk full, locked file) and with
  which exception; \<open>autocommit_ddl\<close> says whether a schema statement is durable as soon as it
  has run (the behaviour of the module's default transaction control, where only data
  statements open a transaction) or only after \<^verbatim>\<open>commit()\<close>.
\<close>

record env =
  fault :: "api \<Rightarrow> error option"
  autocommit_ddl :: bool

type_synonym 'a action = "world \<Rightarrow> (error + 'a) \<times> world"

text \<open>Sequencing: an exception of the first action ends the run with the state reached.\<close>

definition bindE :: "'a action \<Rightarrow> ('a \<Rightarrow> 'b action) \<Rightarrow> 'b action" where
  "bindE m f w = (case m w of (Inl e, w') \<Rightarrow> (Inl e, w') | (Inr x, w') \<Rightarrow> f x w')"

text \<open>
  Every engine call is recorded; a failing call raises and changes nothing else.
\<close>

definition api_call :: "env \<Rightarrow> api \<Rightarrow> 'a action \<Rightarrow> 'a action" where
  "api_call ev a body w =
     (let w1 = w\<lparr>calls := calls w @ [a]\<rparr>
      in case fault ev a of Some e \<Rightarrow> (Inl e, w1) | None \<Rightarrow> body w1)"

fun max_handle :: "(nat \<times> connection) list \<Rightarrow> nat" where
  "max_handle [] = 0"
| "max_handle ((h, c) # cs) = max h (max_handle cs)"

definition fresh_handle :: "(nat \<times> connection) list \<Rightarrow> nat" where
  "fresh_handle cs = Suc (max_handle cs)"

fun conn_update :: "nat \<Rightarrow> connection \<Rightarrow> (nat \<times> connection) list \<Rightarrow> (nat \<times> connection) list" where
  "conn_update h c [] = []"
| "conn_update h c ((k, v) # cs) = (if k = h then (k, c) else (k, v)) # conn_update h c cs"

fun conn_remove :: "nat \<Rightarrow> (nat \<times> connection) list \<Rightarrow> (nat \<times> connection) list" where
  "conn_remove h [] = []"
| "conn_remove h ((k, v) # cs) = (if k = h then conn_remove h cs else (k, v) # conn_remove h cs)"

definition closed_error :: error where
  "closed_error = ProgrammingError ''Cannot operate on a closed database.''"

text \<open>\<^verbatim>\<open>sqlite3.connect(path)\<close>: opens the file, creating an empty database if there is none.\<close>

definition connect :: "env \<Rightarrow> string \<Rightarrow> nat action" where
  "connect ev path = api_call ev Connect (\<lambda>w.
     let h = fresh_handle (conns w);
         fs = (case files w path of None \<Rightarrow> (files w)(path \<mapsto> empty_db)
                                    | Some d \<Rightarrow> files w)
     in (Inr h, w\<lparr>files := fs,
                  conns := (h, \<lparr>conn_path = path, conn_pending = None\<rparr>) # conns w\<rparr>))"

text \<open>\<^verbatim>\<open>conn.cursor()\<close>: a cursor is known by the handle of its connection.\<close>

definition cursor :: "env \<Rightarrow> nat \<Rightarrow> nat action" where
  "cursor ev h = api_call ev Cursor (\<lambda>w.
     case map_of (conns w) h of
       None \<Rightarrow> (Inl closed_error, w)
     | Some c \<Rightarrow> (Inr h, w))"

text \<open>
  The effect of a statement on a database. Tables and views share one name space: a table or a
  view of the name makes \<^verbatim>\<open>CREATE TABLE\<close> fail, or do nothing under \<^verbatim>\<open>IF NOT EXISTS\<close>.
  The engine looks for an index of the name only after that, and then fails whatever the
  clause says.
\<close>

fun exec_stmt :: "statement \<Rightarrow> database \<Rightarrow> error + database" where
  "exec_stmt (CreateTable if_not_exists name cols) db =
     (if reserved_name name
      then Inl (OperationalError (''object name reserved for internal use: '' @ name))
      else if table_named db name
      then (if if_not_exists then Inr db
            else Inl (OperationalError (''table '' @ name @ '' already exists'')))
      else if view_named db name
      then (if if_not_exists then Inr db
            else Inl (OperationalError (''view '' @ name @ '' already exists'')))
      else if index_named db name
      then Inl (OperationalError (''there is already an index named '' @ name))
      else Inr (db\<lparr>db_tables :=
                     db_tables db @ [\<lparr>tbl_name = name, tbl_columns = cols, tbl_rows = []\<rparr>]\<rparr>))"

definition conn_view :: "world \<Rightarrow> connection \<Rightarrow> database" where
  "conn_view w c =
     (case conn_pending c of
        Some d \<Rightarrow> d
      | None \<Rightarrow> (case files w (conn_path c) of Some d \<Rightarrow> d | None \<Rightarrow> empty_db))"

text \<open>\<^verbatim>\<open>cursor.execute(sql)\<close>.\<close>

definition execute :: "env \<Rightarrow> nat \<Rightarrow> statement \<Rightarrow> unit action" where
  "execute ev cur stmt = api_call ev Execute (\<lambda>w.
     case map_of (conns w) cur of
       None \<Rightarrow> (Inl closed_error, w)
     | Some c \<Rightarrow>
         (case exec_stmt stmt (conn_view w c) of
            Inl e \<Rightarrow> (Inl e, w)
          | Inr db' \<Rightarrow>
              if autocommit_ddl ev
              then (Inr (), w\<lparr>files := (files w)(conn_path c \<mapsto> db')\<rparr>)
              else (Inr (), w\<lparr>conns := conn_update cur (c\<lparr>conn_pending := Some db'\<rparr>) (conns w)\<rparr>)))"

text \<open>\<^verbatim>\<open>conn.commit()\<close>: writes what is pending; nothing to do when nothing is.\<close>

definition commit :: "env \<Rightarrow> nat \<Rightarrow> unit action" where
  "commit ev h = api_call ev Commit (\<lambda>w.
     case map_of (conns w) h of
       None \<Rightarrow> (Inl closed_error, w)
     | Some c \<Rightarrow>
         (case conn_pending c of
            None \<Rightarrow> (Inr (), w)
          | Some d \<Rightarrow>
              (Inr (), w\<lparr>files := (files w)(conn_path c \<mapsto> d),
                         conns := conn_update h (c\<lparr>conn_pending := None\<rparr>) (conns w)\<rparr>)))"

text \<open>\<^verbatim>\<open>conn.close()\<close>: releases the handle; what was pending is dropped.\<close>

definition close :: "env \<Rightarrow> nat \<Rightarrow> unit action" where
  "close ev h = api_call ev Close (\<lambda>w. (Inr (), w\<lparr>conns := conn_remove h (conns w)\<rparr>))"

text \<open>\<^verbatim>\<open>print(s)\<close>.\<close>

definition print_line :: "string \<Rightarrow> unit action" where
  "print_line s w = (Inr (), w\<lparr>stdout := stdout w @ [s]\<rparr>)"

section \<open>The program\<close>

text \<open>\<^verbatim>\<open>db_path = '/your/path/to/data.db'\<close>\<close>

definition db_path :: string where
  "db_path = ''/your/path/to/data.db''"

text \<open>
  The statement of the source,
  \<^verbatim>\<open>CREATE TABLE IF NOT EXISTS subscribers (row_key TEXT PRIMARY KEY, sub_id TEXT, act_dt TEXT)\<close>,
  as the engine parses it.
\<close>

definition create_subscribers :: statement where
  "create_subscribers = CreateTable True ''subscribers''
     [\<lparr>col_name = ''row_key'', col_type = ''TEXT'', col_constraints = [PrimaryKey]\<rparr>,
      \<lparr>col_name = ''sub_id'', col_type = ''TEXT'', col_constraints = []\<rparr>,
      \<lparr>col_name = ''act_dt'', col_type = ''TEXT'', col_constraints = []\<rparr>]"

text \<open>
  \<^verbatim>\<open>def initialize_db()\<close>: connect, cursor, execute, commit, close, in a straight line; the
  function takes no argument and has no \<^verbatim>\<open>try\<close>, \<^verbatim>\<open>with\<close> or \<^verbatim>\<open>return\<close>.
\<close>

definition initialize_db :: "env \<Rightarrow> unit action" where
  "initialize_db ev =
     bindE (connect ev db_path) (\<lambda>conn.
     bindE (cursor ev conn) (\<lambda>cur.
     bindE (execute ev cur create_subscribers) (\<lambda>_.
     bindE (commit ev conn) (\<lambda>_.
     close ev conn))))"

text \<open>The body of \<^verbatim>\<open>if __name__ == '__main__':\<close>.\<close>

definition script_main :: "env \<Rightarrow> unit action" where
  "script_main ev =
     bindE (initialize_db ev) (\<lambda>_. print_line ''Database initialized successfully!'')"

text \<open>
  Evaluating the module under a given \<^verbatim>\<open>__name__\<close>: the import of \<^verbatim>\<open>sqlite3\<close>, the
  assignment and the \<^verbatim>\<open>def\<close> bind names only; the guarded block runs for the script.
\<close>

definition module_exec :: "string \<Rightarrow> env \<Rightarrow> unit action" where
  "module_exec name ev w = (if name = ''__main__'' then script_main ev w else (Inr (), w))"

text \<open>The exit status of the interpreter: an uncaught exception gives 1.\<close>

definition exit_status :: "error + unit \<Rightarrow> nat" where
  "exit_status r = (case r of Inl e \<Rightarrow> 1 | Inr u \<Rightarrow> 0)"

section \<open>Observations on the storage\<close>

text \<open>The database a run finds at \<open>db_path\<close>: no file reads as an empty catalog.\<close>

definition db_before :: "world \<Rightarrow> database" where
  "db_before w = (case files w db_path of None \<Rightarrow> empty_db | Some d \<Rightarrow> d)"

text \<open>The table the statement of the source defines, before any row is stored.\<close>

definition subscribers_table :: table where
  "subscribers_table = \<lparr>tbl_name = ''subscribers'', tbl_columns =
     [\<lparr>col_name = ''row_key'', col_type = ''TEXT'', col_constraints = [PrimaryKey]\<rparr>,
      \<lparr>col_name = ''sub_id'', col_type = ''TEXT'', col_constraints = []\<rparr>,
      \<lparr>col_name = ''act_dt'', col_type = ''TEXT'', col_constraints = []\<rparr>], tbl_rows = []\<rparr>"

text \<open>The error the statement of the source meets on the database at \<open>db_path\<close>, if any.\<close>

definition stmt_error :: "world \<Rightarrow> error option" where
  "stmt_error w =
     (case exec_stmt create_subscribers (db_before w) of Inl e \<Rightarrow> Some e | Inr d \<Rightarrow> None)"

text \<open>The database at \<open>db_path\<close> once the statement has run.\<close>

definition db_after :: "world \<Rightarrow> database" where
  "db_after w =
     (case exec_stmt create_subscribers (db_before w) of Inl e \<Rightarrow> db_before w | Inr d \<Rightarrow> d)"

text \<open>
  What an engine call of a run started in \<open>w\<close> raises when the run reaches it: a storage
  failure of the environment, or, for \<^verbatim>\<open>execute\<close>, the error of the statement itself.
\<close>

definition raises :: "env \<Rightarrow> world \<Rightarrow> api \<Rightarrow> error option" where
  "raises ev w a =
     (case fault ev a of
        Some e \<Rightarrow> Some e
      | None \<Rightarrow> (if a = Execute then stmt_error w else None))"

text \<open>The connection \<open>connect\<close> hands out for \<open>db_path\<close>.\<close>

definition new_conn :: connection where
  "new_conn = \<lparr>conn_path = db_path, conn_pending = None\<rparr>"

text \<open>
  Whether the engine finds a table of a given name in the file at a path: it compares names
  without regard to letter case, and a view of the name counts as one.
\<close>

definition has_table :: "(string \<Rightarrow> database option) \<Rightarrow> string \<Rightarrow> string \<Rightarrow> bool" where
  "has_table fs path name =
     (case fs path of None \<Rightarrow> False | Some d \<Rightarrow> table_named d name \<or> view_named d name)"

text \<open>
  The schema catalog of the file at a path: tables by name and column definitions (no rows),
  views and indexes.
\<close>

definition schema ::
  "(string \<Rightarrow> database option) \<Rightarrow> string \<Rightarrow>
     (string \<times> column list) list \<times> db_view list \<times> db_index list" where
  "schema fs path =
     (case fs path of
        None \<Rightarrow> ([], [], [])
      | Some d \<Rightarrow> (map (\<lambda>t. (tbl_name t, tbl_columns t)) (db_tables d), db_views d,
                   db_user_indexes d))"

section \<open>Concrete environments and worlds\<close>

definition no_fault :: "api \<Rightarrow> error option" where
  "no_fault a = None"

definition fault_at :: "api \<Rightarrow> error \<Rightarrow> api \<Rightarrow> error option" where
  "fault_at a e b = (if b = a then Some e else None)"

definition disk_full :: error where
  "disk_full = OperationalError ''database or disk is full''"

definition env_ok :: env where
  "env_ok = \<lparr>fault = no_fault, autocommit_ddl = True\<rparr>"

definition env_execute_fails :: env where
  "env_execute_fails = \<lparr>fault = fault_at Execute disk_full, autocommit_ddl = True\<rparr>"

text \<open>No file anywhere, no open connection, nothing printed.\<close>

definition empty_world :: world where
  "empty_world = \<lparr>files = (\<lambda>p. None), conns = [], calls = [], stdout = []\<rparr>"

definition permission_denied :: error where
  "permission_denied = OperationalError ''unable to open database file''"

definition env_connect_fails :: env where
  "env_connect_fails = \<lparr>fault = fault_at Connect permission_denied, autocommit_ddl = True\<rparr>"

definition env_commit_fails :: env where
  "env_commit_fails = \<lparr>fault = fault_at Commit disk_full, autocommit_ddl = False\<rparr>"

text \<open>The world whose only file is a given database at \<open>db_path\<close>.\<close>

definition world_with :: "database \<Rightarrow> world" where
  "world_with d = \<lparr>files = (\<lambda>p. if p = db_path then Some d else None),
     conns = [], calls = [], stdout = []\<rparr>"

text \<open>A file left by an older schema: a table of the same name with one integer column.\<close>

definition legacy_table :: table where
  "legacy_table = \<lparr>tbl_name = ''subscribers'',
     tbl_columns = [\<lparr>col_name = ''id'', col_type = ''INTEGER'', col_constraints = [PrimaryKey]\<rparr>],
     tbl_rows = [[''7'']]\<rparr>"

definition legacy_db :: database where
  "legacy_db = \<lparr>db_tables = [legacy_table], db_views = [], db_user_indexes = []\<rparr>"

definition legacy_world :: world where
  "legacy_world = world_with legacy_db"

text \<open>A file that already holds the table of the source, with two rows.\<close>

definition populated_table :: table where
  "populated_table = subscribers_table\<lparr>tbl_rows :=
     [[''k1'', ''s1'', ''2020-01-01''], [''k2'', ''s2'', '''']]\<rparr>"

definition populated_db :: database where
  "populated_db = \<lparr>db_tables = [populated_table], db_views = [], db_user_indexes = []\<rparr>"

definition populated_world :: world where
  "populated_world = world_with populated_db"

text \<open>
  Three files in which the name is taken by something else: a table \<^verbatim>\<open>SUBSCRIBERS\<close> in
  capitals, a view \<^verbatim>\<open>subscribers\<close> over a table \<^verbatim>\<open>t\<close>, and an index \<^verbatim>\<open>Subscribers\<close> on
  that table.
\<close>

definition plain_table :: table where
  "plain_table = \<lparr>tbl_name = ''t'',
     tbl_columns = [\<lparr>col_name = ''a'', col_type = ''TEXT'', col_constraints = []\<rparr>],
     tbl_rows = []\<rparr>"

definition capitals_db :: database where
  "capitals_db = \<lparr>db_tables = [legacy_table\<lparr>tbl_name := ''SUBSCRIBERS''\<rparr>], db_views = [],
     db_user_indexes = []\<rparr>"

definition view_db :: database where
  "view_db = \<lparr>db_tables = [plain_table],
     db_views = [\<lparr>view_name = ''subscribers'', view_sql = ''SELECT a FROM t''\<rparr>],
     db_user_indexes = []\<rparr>"

definition index_db :: database where
  "index_db = \<lparr>db_tables = [plain_table], db_views = [],
     db_user_indexes = [\<lparr>idx_name = ''Subscribers'', idx_table = ''t'', idx_columns = [''a'']\<rparr>]\<rparr>"

definition index_error :: error where
  "index_error = OperationalError ''there is already an index named subscribers''"

section \<open>The exit paths of \<open>initialize_db\<close>\<close>

lemma max_handle_ge: "(k, v) \<in> set cs \<Longrightarrow> k \<le> max_handle cs"
  by (induction cs) auto

lemma fresh_handle_new: "(fresh_handle cs, v) \<notin> set cs"
  using max_handle_ge [of "fresh_handle cs" v cs] by (auto simp: fresh_handle_def)

lemma conn_remove_absent: "\<forall>v. (h, v) \<notin> set cs \<Longrightarrow> conn_remove h cs = cs"
  by (induction cs) auto

lemma conn_update_absent: "\<forall>v. (h, v) \<notin> set cs \<Longrightarrow> conn_update h c cs = cs"
  by (induction cs) auto

lemma conn_remove_fresh [simp]: "conn_remove (fresh_handle cs) cs = cs"
  by (simp add: conn_remove_absent fresh_handle_new)

lemma conn_update_fresh [simp]: "conn_update (fresh_handle cs) c cs = cs"
  by (simp add: conn_update_absent fresh_handle_new)

text \<open>The statement of the source on any database.\<close>

lemma not_reserved: "\<not> reserved_name ''subscribers''"
  by (simp add: reserved_name_def lower_char_def)

lemma exec_create_subscribers:
  "exec_stmt create_subscribers d =
     (if table_named d ''subscribers'' \<or> view_named d ''subscribers'' then Inr d
      else if index_named d ''subscribers'' then Inl index_error
      else Inr (d\<lparr>db_tables := db_tables d @ [subscribers_table]\<rparr>))"
  by (simp add: create_subscribers_def not_reserved subscribers_table_def index_error_def)

lemma stmt_error_cases:
  "stmt_error w =
     (if \<not> table_named (db_before w) ''subscribers'' \<and> \<not> view_named (db_before w) ''subscribers''
         \<and> index_named (db_before w) ''subscribers''
      then Some index_error else None)"
  by (simp add: stmt_error_def exec_create_subscribers)

lemma db_after_cases:
  "db_after w =
     (if table_named (db_before w) ''subscribers'' \<or> view_named (db_before w) ''subscribers''
         \<or> index_named (db_before w) ''subscribers''
      then db_before w
      else (db_before w)\<lparr>db_tables := db_tables (db_before w) @ [subscribers_table]\<rparr>)"
  by (simp add: db_after_def exec_create_subscribers)

lemma exec_error: "stmt_error w = Some e \<Longrightarrow> exec_stmt create_subscribers (db_before w) = Inl e"
  by (simp add: stmt_error_def split: sum.splits)

lemma exec_ok:
  "stmt_error w = None \<Longrightarrow> exec_stmt create_subscribers (db_before w) = Inr (db_after w)"
  by (simp add: stmt_error_def db_after_def split: sum.splits)

lemmas run_defs = initialize_db_def bindE_def connect_def cursor_def execute_def commit_def
  close_def api_call_def Let_def conn_view_def new_conn_def map_upd_triv

lemma db_before_none: "files w db_path = None \<Longrightarrow> db_before w = empty_db"
  by (simp add: db_before_def)

lemma db_before_some: "files w db_path = Some d \<Longrightarrow> db_before w = d"
  by (simp add: db_before_def)

text \<open>
  One lemma for each way out of the function: the exception of the first failing call, or the
  normal return. Each gives the whole state the run leaves.
\<close>

lemma run_connect_fault:
  assumes "fault ev Connect = Some e"
  shows "initialize_db ev w = (Inl e, w\<lparr>calls := calls w @ [Connect]\<rparr>)"
  using assms by (simp add: run_defs)

lemma run_cursor_fault:
  assumes "fault ev Connect = None" "fault ev Cursor = Some e"
  shows "initialize_db ev w =
     (Inl e, w\<lparr>files := (files w)(db_path \<mapsto> db_before w),
               conns := (fresh_handle (conns w), new_conn) # conns w,
               calls := calls w @ [Connect, Cursor]\<rparr>)"
  using assms
  by (cases "files w db_path") (simp_all add: run_defs db_before_none db_before_some)

lemma run_execute_fault:
  assumes "fault ev Connect = None" "fault ev Cursor = None" "fault ev Execute = Some e"
  shows "initialize_db ev w =
     (Inl e, w\<lparr>files := (files w)(db_path \<mapsto> db_before w),
               conns := (fresh_handle (conns w), new_conn) # conns w,
               calls := calls w @ [Connect, Cursor, Execute]\<rparr>)"
  using assms
  by (cases "files w db_path") (simp_all add: run_defs db_before_none db_before_some)

lemma run_execute_error:
  assumes "fault ev Connect = None" "fault ev Cursor = None" "fault ev Execute = None"
    "stmt_error w = Some e"
  shows "initialize_db ev w =
     (Inl e, w\<lparr>files := (files w)(db_path \<mapsto> db_before w),
               conns := (fresh_handle (conns w), new_conn) # conns w,
               calls := calls w @ [Connect, Cursor, Execute]\<rparr>)"
proof (cases "files w db_path")
  case None
  then show ?thesis using assms(1-3) exec_error [OF assms(4)]
    by (simp add: run_defs db_before_none)
next
  case (Some d)
  then show ?thesis using assms(1-3) exec_error [OF assms(4)]
    by (simp add: run_defs db_before_some)
qed

lemma run_commit_fault:
  assumes "fault ev Connect = None" "fault ev Cursor = None" "fault ev Execute = None"
    "stmt_error w = None" "fault ev Commit = Some e"
  shows "initialize_db ev w =
     (Inl e, w\<lparr>files := (files w)(db_path \<mapsto>
                          (if autocommit_ddl ev then db_after w else db_before w)),
               conns := (fresh_handle (conns w),
                         new_conn\<lparr>conn_pending :=
                           (if autocommit_ddl ev then None else Some (db_after w))\<rparr>)
                        # conns w,
               calls := calls w @ [Connect, Cursor, Execute, Commit]\<rparr>)"
proof (cases "files w db_path")
  case None
  then show ?thesis using assms(1-3,5) exec_ok [OF assms(4)]
    by (simp add: run_defs db_before_none)
next
  case (Some d)
  then show ?thesis using assms(1-3,5) exec_ok [OF assms(4)]
    by (simp add: run_defs db_before_some)
qed

lemma run_close_fault:
  assumes "fault ev Connect = None" "fault ev Cursor = None" "fault ev Execute = None"
    "stmt_error w = None" "fault ev Commit = None" "fault ev Close = Some e"
  shows "initialize_db ev w =
     (Inl e, w\<lparr>files := (files w)(db_path \<mapsto> db_after w),
               conns := (fresh_handle (conns w), new_conn) # conns w,
               calls := calls w @ [Connect, Cursor, Execute, Commit, Close]\<rparr>)"
proof (cases "files w db_path")
  case None
  then show ?thesis using assms(1-3,5,6) exec_ok [OF assms(4)]
    by (simp add: run_defs db_before_none)
next
  case (Some d)
  then show ?thesis using assms(1-3,5,6) exec_ok [OF assms(4)]
    by (simp add: run_defs db_before_some)
qed

lemma run_success:
  assumes "fault ev Connect = None" "fault ev Cursor = None" "fault ev Execute = None"
    "stmt_error w = None" "fault ev Commit = None" "fault ev Close = None"
  shows "initialize_db ev w =
     (Inr (), w\<lparr>files := (files w)(db_path \<mapsto> db_after w),
               calls := calls w @ [Connect, Cursor, Execute, Commit, Close]\<rparr>)"
proof (cases "files w db_path")
  case None
  then show ?thesis using assms(1-3,5,6) exec_ok [OF assms(4)]
    by (simp add: run_defs db_before_none)
next
  case (Some d)
  then show ?thesis using assms(1-3,5,6) exec_ok [OF assms(4)]
    by (simp add: run_defs db_before_some)
qed

lemma run_exits:
  obtains (connect) e where "fault ev Connect = Some e"
  | (cursor) e where "fault ev Connect = None" "fault ev Cursor = Some e"
  | (execute) e where "fault ev Connect = None" "fault ev Cursor = None"
      "fault ev Execute = Some e"
  | (statement) e where "fault ev Connect = None" "fault ev Cursor = None"
      "fault ev Execute = None" "stmt_error w = Some e"
  | (commit) e where "fault ev Connect = None" "fault ev Cursor = None"
      "fault ev Execute = None" "stmt_error w = None" "fault ev Commit = Some e"
  | (close) e where "fault ev Connect = None" "fault ev Cursor = None"
      "fault ev Execute = None" "stmt_error w = None" "fault ev Commit = None"
      "fault ev Close = Some e"
  | (ok) "fault ev Connect = None" "fault ev Cursor = None" "fault ev Execute = None"
      "stmt_error w = None" "fault ev Commit = None" "fault ev Close = None"
proof (cases "fault ev Connect")
  case (Some e) then show ?thesis by (rule connect)
next
  case c1: None
  show ?thesis
  proof (cases "fault ev Cursor")
    case (Some e) with c1 show ?thesis by (rule cursor)
  next
    case c2: None
    show ?thesis
    proof (cases "fault ev Execute")
      case (Some e) with c1 c2 show ?thesis by (rule execute)
    next
      case c3: None
      show ?thesis
      proof (cases "stmt_error w")
        case (Some e) with c1 c2 c3 show ?thesis by (rule statement)
      next
        case c4: None
        show ?thesis
        proof (cases "fault ev Commit")
          case (Some e) with c1 c2 c3 c4 show ?thesis by (rule commit)
        next
          case c5: None
          show ?thesis
          proof (cases "fault ev Close")
            case (Some e) with c1 c2 c3 c4 c5 show ?thesis by (rule close)
          next
            case None with c1 c2 c3 c4 c5 show ?thesis by (rule ok)
          qed
        qed
      qed
    qed
  qed
qed

lemmas run_paths = run_connect_fault run_cursor_fault run_execute_fault run_execute_error
  run_commit_fault run_close_fault run_success

text \<open>The concrete environments and worlds.\<close>

lemma env_ok_fault [simp]: "fault env_ok a = None"
  by (simp add: env_ok_def no_fault_def)

lemma env_execute_fails_fault [simp]:
  "fault env_execute_fails Connect = None"
  "fault env_execute_fails Cursor = None"
  "fault env_execute_fails Execute = Some disk_full"
  by (simp_all add: env_execute_fails_def fault_at_def)

lemma env_connect_fails_fault [simp]:
  "fault env_connect_fails Connect = Some permission_denied"
  by (simp add: env_connect_fails_def fault_at_def)

lemma env_commit_fails_fault [simp]:
  "fault env_commit_fails Connect = None"
  "fault env_commit_fails Cursor = None"
  "fault env_commit_fails Execute = None"
  "fault env_commit_fails Commit = Some disk_full"
  by (simp_all add: env_commit_fails_def fault_at_def)

lemma world_with_simps [simp]:
  "files (world_with d) db_path = Some d"
  "db_before (world_with d) = d"
  "conns (world_with d) = []"
  "calls (world_with d) = []"
  "stdout (world_with d) = []"
  by (simp_all add: world_with_def db_before_def)

lemma empty_world_simps [simp]:
  "files empty_world p = None"
  "db_before empty_world = empty_db"
  "conns empty_world = []"
  "calls empty_world = []"
  "stdout empty_world = []"
  by (simp_all add: empty_world_def db_before_def)

lemma same_name_refl [simp]: "same_name a a"
  by (simp add: same_name_def)

lemma empty_db_free [simp]:
  "\<not> table_named empty_db name" "\<not> view_named empty_db name" "\<not> index_named empty_db name"
  by (simp_all add: empty_db_def table_named_def view_named_def index_named_def)

lemma legacy_db_taken [simp]: "table_named legacy_db ''subscribers''"
  by (simp add: legacy_db_def legacy_table_def table_named_def)

lemma populated_db_taken [simp]: "table_named populated_db ''subscribers''"
  by (simp add: populated_db_def populated_table_def subscribers_table_def table_named_def)

lemma capitals_db_taken [simp]: "table_named capitals_db ''subscribers''"
  by (simp add: capitals_db_def legacy_table_def table_named_def same_name_def lower_char_def)

lemma view_db_taken [simp]:
  "\<not> table_named view_db ''subscribers''" "view_named view_db ''subscribers''"
  by (simp_all add: view_db_def plain_table_def table_named_def view_named_def same_name_def
      lower_char_def)

lemma index_db_taken [simp]:
  "\<not> table_named index_db ''subscribers''" "\<not> view_named index_db ''subscribers''"
  "index_named index_db ''subscribers''"
  by (simp_all add: index_db_def plain_table_def table_named_def view_named_def
      index_named_def same_name_def lower_char_def)

text \<open>What every run has in common, whichever way it ends.\<close>

lemma run_files:
  "files (snd (initialize_db ev w)) = files w \<or>
   files (snd (initialize_db ev w)) = (files w)(db_path \<mapsto> db_before w) \<or>
   files (snd (initialize_db ev w)) = (files w)(db_path \<mapsto> db_after w)"
  by (cases rule: run_exits [where ev = ev and w = w]) (simp_all add: run_paths)

lemma run_stdout: "stdout (snd (initialize_db ev w)) = stdout w"
  by (cases rule: run_exits [where ev = ev and w = w]) (simp_all add: run_paths)

lemma run_first_call:
  "take (Suc (length (calls w))) (calls (snd (initialize_db ev w))) = calls w @ [Connect]"
  by (cases rule: run_exits [where ev = ev and w = w]) (simp_all add: run_paths)

lemma raises_other: "a \<noteq> Execute \<Longrightarrow> raises ev w a = fault ev a"
  by (simp add: raises_def split: option.splits)

lemma raises_execute_none:
  "raises ev w Execute = None \<longleftrightarrow> fault ev Execute = None \<and> stmt_error w = None"
  by (simp add: raises_def split: option.splits)

lemma raises_no_stmt_error: "stmt_error w = None \<Longrightarrow> raises ev w a = fault ev a"
  by (simp add: raises_def split: option.splits)

lemma run_result:
  "fst (initialize_db ev w) = Inr () \<longleftrightarrow> (\<forall>a. raises ev w a = None)"
proof (cases rule: run_exits [where ev = ev and w = w])
  case ok
  have "raises ev w a = None" for a using ok by (cases a) (simp_all add: raises_def)
  then show ?thesis using ok by (simp add: run_success)
next
  case (connect e)
  then have "raises ev w Connect \<noteq> None" by (simp add: raises_def)
  then show ?thesis using connect by (auto simp: run_connect_fault)
next
  case (cursor e)
  then have "raises ev w Cursor \<noteq> None" by (simp add: raises_def)
  then show ?thesis using cursor by (auto simp: run_cursor_fault)
next
  case (execute e)
  then have "raises ev w Execute \<noteq> None" by (simp add: raises_def)
  then show ?thesis using execute by (auto simp: run_execute_fault)
next
  case (statement e)
  then have "raises ev w Execute \<noteq> None" by (simp add: raises_def)
  then show ?thesis using statement by (auto simp: run_execute_error)
next
  case (commit e)
  then have "raises ev w Commit \<noteq> None" by (simp add: raises_def)
  then show ?thesis using commit by (auto simp: run_commit_fault)
next
  case (close e)
  then have "raises ev w Close \<noteq> None" by (simp add: raises_def)
  then show ?thesis using close by (auto simp: run_close_fault)
qed

lemma run_error:
  assumes "fst (initialize_db ev w) = Inl e"
  shows "\<exists>a. raises ev w a = Some e"
proof (cases rule: run_exits [where ev = ev and w = w])
  case (connect e')
  then have "raises ev w Connect = Some e" using assms by (simp add: run_connect_fault raises_def)
  then show ?thesis ..
next
  case (cursor e')
  then have "raises ev w Cursor = Some e" using assms by (simp add: run_cursor_fault raises_def)
  then show ?thesis ..
next
  case (execute e')
  then have "raises ev w Execute = Some e" using assms by (simp add: run_execute_fault raises_def)
  then show ?thesis ..
next
  case (statement e')
  then have "raises ev w Execute = Some e" using assms by (simp add: run_execute_error raises_def)
  then show ?thesis ..
next
  case (commit e')
  then have "raises ev w Commit = Some e" using assms by (simp add: run_commit_fault raises_def)
  then show ?thesis ..
next
  case (close e')
  then have "raises ev w Close = Some e" using assms by (simp add: run_close_fault raises_def)
  then show ?thesis ..
next
  case ok
  then show ?thesis using assms by (simp add: run_success)
qed

lemma run_success_iff:
  assumes "fst (initialize_db ev w) = Inr ()"
  shows "initialize_db ev w =
     (Inr (), w\<lparr>files := (files w)(db_path \<mapsto> db_after w),
               calls := calls w @ [Connect, Cursor, Execute, Commit, Close]\<rparr>)"
proof -
  have all: "\<forall>a. raises ev w a = None" using assms run_result [of ev w] by simp
  have "stmt_error w = None" and "fault ev Execute = None"
    using all raises_execute_none [of ev w] by simp_all
  moreover have "fault ev Connect = None"
    using all raises_other [of Connect ev w] by simp
  moreover have "fault ev Cursor = None"
    using all raises_other [of Cursor ev w] by simp
  moreover have "fault ev Commit = None"
    using all raises_other [of Commit ev w] by simp
  moreover have "fault ev Close = None"
    using all raises_other [of Close ev w] by simp
  ultimately show ?thesis by (simp add: run_success)
qed

lemma stmt_fresh:
  assumes "files w db_path = None"
  shows "stmt_error w = None"
    and "db_after w = \<lparr>db_tables = [subscribers_table], db_views = [], db_user_indexes = []\<rparr>"
  using assms by (simp_all add: stmt_error_cases db_after_cases db_before_none empty_db_def
      table_named_def view_named_def index_named_def)

lemma stmt_taken:
  assumes "has_table (files w) db_path ''subscribers''"
  shows "stmt_error w = None" and "db_after w = db_before w"
  using assms
  by (auto simp: has_table_def stmt_error_cases db_after_cases db_before_def
      split: option.splits)

lemma table_named_exact:
  assumes "name \<in> set (map tbl_name (db_tables d))"
  shows "table_named d name"
proof -
  obtain t where "t \<in> set (db_tables d)" and "tbl_name t = name" using assms by auto
  then have "\<exists>t \<in> set (db_tables d). same_name (tbl_name t) name" by (intro bexI [of _ t]) simp_all
  then show ?thesis by (simp add: table_named_def list_ex_iff)
qed

lemma filter_absent:
  "\<not> table_named d name \<Longrightarrow> filter (\<lambda>t. same_name (tbl_name t) name) (db_tables d) = []"
  by (simp add: table_named_def list_ex_iff filter_empty_conv)

lemma filter_absent_exact:
  "\<not> table_named d name \<Longrightarrow> filter (\<lambda>t. tbl_name t = name) (db_tables d) = []"
  by (auto simp: table_named_def list_ex_iff filter_empty_conv)

section \<open>Release of the connection\<close>

text \<open>
  C1 (as the code has it). \<open>initialize_db\<close> releases the connection it acquired on its normal
  exit: when the run returns without an error, the open connections are those of before. When
  \<open>connect\<close> itself fails nothing was acquired. When a later call fails (cursor, execute,
  commit or close), the exception leaves the function with the new connection still open:
  the function has no \<^verbatim>\<open>try/finally\<close> and no \<^verbatim>\<open>with\<close> block.
\<close>

theorem initialize_db_release:
  "(fst (initialize_db ev w) = Inr () \<longrightarrow> conns (snd (initialize_db ev w)) = conns w) \<and>
   (fault ev Connect \<noteq> None \<longrightarrow> conns (snd (initialize_db ev w)) = conns w) \<and>
   (fault ev Connect = None \<and> fst (initialize_db ev w) \<noteq> Inr () \<longrightarrow>
      map fst (conns (snd (initialize_db ev w))) = fresh_handle (conns w) # map fst (conns w))"
proof (cases rule: run_exits [where ev = ev and w = w])
  case (connect e) then show ?thesis by (simp add: run_connect_fault)
next
  case (cursor e) then show ?thesis by (simp add: run_cursor_fault)
next
  case (execute e) then show ?thesis by (simp add: run_execute_fault)
next
  case (statement e) then show ?thesis by (simp add: run_execute_error)
next
  case (commit e) then show ?thesis by (simp add: run_commit_fault)
next
  case (close e) then show ?thesis by (simp add: run_close_fault)
next
  case ok then show ?thesis by (simp add: run_success)
qed

theorem initialize_db_release_witness:
  "fst (initialize_db env_ok empty_world) = Inr () \<and>
   conns (snd (initialize_db env_ok empty_world)) = conns empty_world \<and>
   fault env_connect_fails Connect \<noteq> None \<and>
   conns (snd (initialize_db env_connect_fails empty_world)) = conns empty_world \<and>
   fault env_execute_fails Connect = None \<and>
   fst (initialize_db env_execute_fails empty_world) \<noteq> Inr () \<and>
   map fst (conns (snd (initialize_db env_execute_fails empty_world))) = [Suc 0]"
  using initialize_db_release [of env_ok empty_world]
    initialize_db_release [of env_connect_fails empty_world]
    initialize_db_release [of env_execute_fails empty_world]
  by (simp add: run_success run_execute_fault run_connect_fault stmt_fresh fresh_handle_def)

text \<open>
  C1 as stated fails: with no file and no open connection, let \<^verbatim>\<open>cursor.execute\<close> raise
  "database or disk is full". The exception reaches the caller, \<^verbatim>\<open>conn.close()\<close> was never
  called, and the connection opened by the run is still open.
\<close>

theorem initialize_db_leak_counterexample:
  "fst (initialize_db env_execute_fails empty_world) = Inl disk_full \<and>
   conns (snd (initialize_db env_execute_fails empty_world))
     = [(Suc 0, \<lparr>conn_path = db_path, conn_pending = None\<rparr>)] \<and>
   conns empty_world = [] \<and>
   Close \<notin> set (calls (snd (initialize_db env_execute_fails empty_world)))"
  by (simp add: run_execute_fault fresh_handle_def new_conn_def)

section \<open>Idempotence\<close>

text \<open>
  C2. Start where no file exists at \<open>db_path\<close> and let a first run succeed: the file then
  holds exactly one table, \<^verbatim>\<open>subscribers\<close>, with the three columns of the statement, and
  nothing else. A second run leaves every file as the first run left it, whatever happens to
  it; it returns normally when the engine meets no storage failure, and any exception it does
  raise is such a failure of the engine, never one caused by the table being there already.
\<close>

theorem initialize_db_idempotent:
  assumes "files w db_path = None"
    and "initialize_db ev1 w = (Inr (), w1)"
    and "initialize_db ev2 w1 = (r2, w2)"
  shows "files w1 db_path = Some
           \<lparr>db_tables =
              [\<lparr>tbl_name = ''subscribers'', tbl_columns =
                 [\<lparr>col_name = ''row_key'', col_type = ''TEXT'', col_constraints = [PrimaryKey]\<rparr>,
                  \<lparr>col_name = ''sub_id'', col_type = ''TEXT'', col_constraints = []\<rparr>,
                  \<lparr>col_name = ''act_dt'', col_type = ''TEXT'', col_constraints = []\<rparr>],
                 tbl_rows = []\<rparr>],
            db_views = [], db_user_indexes = []\<rparr> \<and>
         files w2 = files w1 \<and>
         ((\<forall>a. fault ev2 a = None) \<longrightarrow> r2 = Inr ()) \<and>
         (\<forall>e. r2 = Inl e \<longrightarrow> (\<exists>a. fault ev2 a = Some e))"
proof -
  let ?d = "\<lparr>db_tables = [subscribers_table], db_views = [], db_user_indexes = []\<rparr>"
  have ok1: "fst (initialize_db ev1 w) = Inr ()" using assms(2) by simp
  have w1: "w1 = w\<lparr>files := (files w)(db_path \<mapsto> ?d),
               calls := calls w @ [Connect, Cursor, Execute, Commit, Close]\<rparr>"
    using run_success_iff [OF ok1] assms(2) stmt_fresh(2) [OF assms(1)] by simp
  then have f1: "files w1 db_path = Some ?d" by simp
  have "table_named ?d ''subscribers''"
    by (rule table_named_exact) (simp add: subscribers_table_def)
  then have taken: "has_table (files w1) db_path ''subscribers''"
    using f1 by (simp add: has_table_def)
  have b1: "db_before w1 = ?d" using f1 by (rule db_before_some)
  have a1: "db_after w1 = ?d" using stmt_taken(2) [OF taken] b1 by simp
  have s1: "stmt_error w1 = None" using taken by (rule stmt_taken(1))
  have same: "(files w1)(db_path \<mapsto> ?d) = files w1"
    using f1 by (simp add: map_upd_triv)
  have "files w2 = files w1"
    using run_files [of ev2 w1] assms(3) by (auto simp: a1 b1 same)
  moreover have "(\<forall>a. fault ev2 a = None) \<longrightarrow> r2 = Inr ()"
    using run_result [of ev2 w1] assms(3) by (simp add: raises_no_stmt_error [OF s1])
  moreover have "\<forall>e. r2 = Inl e \<longrightarrow> (\<exists>a. fault ev2 a = Some e)"
    using run_error [of ev2 w1] assms(3) by (simp add: raises_no_stmt_error [OF s1])
  ultimately show ?thesis using f1 by (simp add: subscribers_table_def)
qed

theorem initialize_db_idempotent_witness:
  "files empty_world db_path = None \<and>
   fst (initialize_db env_ok empty_world) = Inr () \<and>
   fst (initialize_db env_ok (snd (initialize_db env_ok empty_world))) = Inr () \<and>
   files (snd (initialize_db env_ok (snd (initialize_db env_ok empty_world))))
     = files (snd (initialize_db env_ok empty_world)) \<and>
   map tbl_name (db_tables (the (files (snd (initialize_db env_ok empty_world)) db_path)))
     = [''subscribers''] \<and>
   fst (initialize_db env_execute_fails (snd (initialize_db env_ok empty_world)))
     = Inl disk_full \<and>
   fault env_execute_fails Execute = Some disk_full"
proof -
  have r1: "fst (initialize_db env_ok empty_world) = Inr ()"
    by (simp add: run_success stmt_fresh)
  have r2: "fst (initialize_db env_execute_fails (snd (initialize_db env_ok empty_world)))
      = Inl disk_full"
    by (simp add: run_execute_fault)
  have first: "initialize_db env_ok empty_world =
      (Inr (), snd (initialize_db env_ok empty_world))"
    using r1 by (simp add: prod_eq_iff)
  have second: "initialize_db env_execute_fails (snd (initialize_db env_ok empty_world)) =
      (Inl disk_full,
       snd (initialize_db env_execute_fails (snd (initialize_db env_ok empty_world))))"
    using r2 by (simp add: prod_eq_iff)
  have third: "initialize_db env_ok (snd (initialize_db env_ok empty_world)) =
      (fst (initialize_db env_ok (snd (initialize_db env_ok empty_world))),
       snd (initialize_db env_ok (snd (initialize_db env_ok empty_world))))"
    by simp
  show ?thesis
    using initialize_db_idempotent [OF _ first third] initialize_db_idempotent [OF _ first second]
      r1 r2
    by simp
qed

section \<open>Shape of the schema\<close>

text \<open>
  C3 (as the code has it). After a successful run against a location where the engine finds
  no table named \<^verbatim>\<open>subscribers\<close> (no file, or a file with no table and no view of that name
  in any letter case), the file holds exactly one table of that name: three \<^verbatim>\<open>TEXT\<close>
  columns \<^verbatim>\<open>row_key\<close>, \<^verbatim>\<open>sub_id\<close>, \<^verbatim>\<open>act_dt\<close> in this order, \<^verbatim>\<open>row_key\<close> the primary key,
  no constraint on the other two. Where the engine does find one (a table or a view, in any
  letter case), \<^verbatim>\<open>IF NOT EXISTS\<close> leaves the file as it was, whatever that object is.
\<close>

theorem initialize_db_schema:
  assumes "fst (initialize_db ev w) = Inr ()"
  shows "(\<not> has_table (files w) db_path ''subscribers'' \<longrightarrow>
            (\<exists>d. files (snd (initialize_db ev w)) db_path = Some d \<and>
                 filter (\<lambda>t. same_name (tbl_name t) ''subscribers'') (db_tables d) =
                   [\<lparr>tbl_name = ''subscribers'', tbl_columns =
                      [\<lparr>col_name = ''row_key'', col_type = ''TEXT'',
                         col_constraints = [PrimaryKey]\<rparr>,
                       \<lparr>col_name = ''sub_id'', col_type = ''TEXT'', col_constraints = []\<rparr>,
                       \<lparr>col_name = ''act_dt'', col_type = ''TEXT'', col_constraints = []\<rparr>],
                      tbl_rows = []\<rparr>] \<and>
                 filter (\<lambda>t. tbl_name t = ''subscribers'') (db_tables d) =
                   [\<lparr>tbl_name = ''subscribers'', tbl_columns =
                      [\<lparr>col_name = ''row_key'', col_type = ''TEXT'',
                         col_constraints = [PrimaryKey]\<rparr>,
                       \<lparr>col_name = ''sub_id'', col_type = ''TEXT'', col_constraints = []\<rparr>,
                       \<lparr>col_name = ''act_dt'', col_type = ''TEXT'', col_constraints = []\<rparr>],
                      tbl_rows = []\<rparr>])) \<and>
         (has_table (files w) db_path ''subscribers'' \<longrightarrow>
            files (snd (initialize_db ev w)) db_path = files w db_path)"
proof -
  have run: "files (snd (initialize_db ev w)) db_path = Some (db_after w)"
    using run_success_iff [OF assms] by simp
  have no_error: "stmt_error w = None"
    using assms run_result [of ev w] raises_execute_none [of ev w] by simp
  show ?thesis
  proof (cases "has_table (files w) db_path ''subscribers''")
    case True
    then obtain d where d: "files w db_path = Some d"
      by (auto simp: has_table_def split: option.splits)
    then show ?thesis using True run stmt_taken(2) [OF True] by (simp add: db_before_some)
  next
    case False
    then have free: "\<not> table_named (db_before w) ''subscribers''"
        "\<not> view_named (db_before w) ''subscribers''"
      by (auto simp: has_table_def db_before_def split: option.splits)
    then have "\<not> index_named (db_before w) ''subscribers''"
      using no_error by (simp add: stmt_error_cases split: if_splits)
    then have after: "db_tables (db_after w) = db_tables (db_before w) @ [subscribers_table]"
      using free by (simp add: db_after_cases)
    have "filter (\<lambda>t. same_name (tbl_name t) ''subscribers'') (db_tables (db_after w))
        = [subscribers_table]"
      using filter_absent [OF free(1)] by (simp add: after subscribers_table_def)
    moreover have "filter (\<lambda>t. tbl_name t = ''subscribers'') (db_tables (db_after w))
        = [subscribers_table]"
      using filter_absent_exact [OF free(1)] by (simp add: after subscribers_table_def)
    ultimately show ?thesis using False run by (simp add: subscribers_table_def)
  qed
qed

theorem initialize_db_schema_witness:
  "fst (initialize_db env_ok empty_world) = Inr () \<and>
   \<not> has_table (files empty_world) db_path ''subscribers'' \<and>
   db_tables (the (files (snd (initialize_db env_ok empty_world)) db_path))
     = [subscribers_table] \<and>
   fst (initialize_db env_ok legacy_world) = Inr () \<and>
   has_table (files legacy_world) db_path ''subscribers'' \<and>
   files (snd (initialize_db env_ok legacy_world)) db_path = files legacy_world db_path \<and>
   fst (initialize_db env_ok (world_with capitals_db)) = Inr () \<and>
   has_table (files (world_with capitals_db)) db_path ''subscribers'' \<and>
   files (snd (initialize_db env_ok (world_with capitals_db))) db_path = Some capitals_db \<and>
   fst (initialize_db env_ok (world_with view_db)) = Inr () \<and>
   has_table (files (world_with view_db)) db_path ''subscribers'' \<and>
   files (snd (initialize_db env_ok (world_with view_db))) db_path = Some view_db"
proof -
  have taken: "has_table (files legacy_world) db_path ''subscribers''"
    "has_table (files (world_with capitals_db)) db_path ''subscribers''"
    "has_table (files (world_with view_db)) db_path ''subscribers''"
    by (simp_all add: has_table_def legacy_world_def)
  have free: "\<not> has_table (files empty_world) db_path ''subscribers''"
    by (simp add: has_table_def)
  have ok: "fst (initialize_db env_ok empty_world) = Inr ()"
    "fst (initialize_db env_ok legacy_world) = Inr ()"
    "fst (initialize_db env_ok (world_with capitals_db)) = Inr ()"
    "fst (initialize_db env_ok (world_with view_db)) = Inr ()"
    by (simp_all add: run_success stmt_fresh stmt_taken(1) [OF taken(1)]
        stmt_taken(1) [OF taken(2)] stmt_taken(1) [OF taken(3)])
  have made: "db_tables (the (files (snd (initialize_db env_ok empty_world)) db_path))
      = [subscribers_table]"
    by (simp add: run_success stmt_fresh)
  show ?thesis
    using initialize_db_schema [OF ok(1)] initialize_db_schema [OF ok(2)]
      initialize_db_schema [OF ok(3)] initialize_db_schema [OF ok(4)] taken free ok made
    by (simp add: legacy_world_def)
qed

text \<open>
  C3 as stated fails: run against a file whose table \<^verbatim>\<open>subscribers\<close> has the single column
  \<^verbatim>\<open>id INTEGER PRIMARY KEY\<close>. The run succeeds, and the table still has that one column.
\<close>

theorem initialize_db_schema_counterexample:
  "fst (initialize_db env_ok legacy_world) = Inr () \<and>
   files (snd (initialize_db env_ok legacy_world)) db_path =
     Some \<lparr>db_tables =
             [\<lparr>tbl_name = ''subscribers'',
               tbl_columns = [\<lparr>col_name = ''id'', col_type = ''INTEGER'',
                                col_constraints = [PrimaryKey]\<rparr>],
               tbl_rows = [[''7'']]\<rparr>],
           db_views = [], db_user_indexes = []\<rparr>"
proof -
  have taken: "has_table (files legacy_world) db_path ''subscribers''"
    by (simp add: has_table_def legacy_world_def)
  show ?thesis
    by (simp add: run_success stmt_taken [OF taken])
       (simp add: legacy_world_def legacy_db_def legacy_table_def)
qed

section \<open>Propagation of errors\<close>

text \<open>
  C4. Let \<open>a\<close> be the first engine call of the run that raises, with exception \<open>e\<close>: a storage
  failure of the environment at any call, or the statement's own error at \<^verbatim>\<open>execute\<close>. Then
  the run ends with that same exception; the engine calls it made are those before \<open>a\<close>, once
  each and in the order of the source, then \<open>a\<close>, and none after it (no retry, no recovery);
  and nothing was printed (no logging).
\<close>

theorem initialize_db_propagates:
  assumes "raises ev w a = Some e"
    and "\<forall>b \<in> set (takeWhile (\<lambda>b. b \<noteq> a) [Connect, Cursor, Execute, Commit, Close]).
           raises ev w b = None"
  shows "fst (initialize_db ev w) = Inl e \<and>
         calls (snd (initialize_db ev w)) =
           calls w @ takeWhile (\<lambda>b. b \<noteq> a) [Connect, Cursor, Execute, Commit, Close] @ [a] \<and>
         stdout (snd (initialize_db ev w)) = stdout w"
proof (cases a)
  case Connect
  then show ?thesis using assms by (simp add: raises_other run_connect_fault)
next
  case Cursor
  then show ?thesis using assms by (simp add: raises_other run_cursor_fault)
next
  case Execute
  show ?thesis
  proof (cases "fault ev Execute")
    case None
    then have "stmt_error w = Some e" using assms(1) Execute by (simp add: raises_def)
    then show ?thesis using assms(2) Execute None by (simp add: raises_other run_execute_error)
  next
    case (Some e')
    then have "e' = e" using assms(1) Execute by (simp add: raises_def)
    then show ?thesis using assms(2) Execute Some by (simp add: raises_other run_execute_fault)
  qed
next
  case Commit
  then show ?thesis using assms
    by (simp add: raises_other raises_execute_none run_commit_fault)
next
  case Close
  then show ?thesis using assms
    by (simp add: raises_other raises_execute_none run_close_fault)
qed

theorem initialize_db_propagates_witness:
  "raises env_commit_fails empty_world Commit = Some disk_full \<and>
   raises env_commit_fails empty_world Connect = None \<and>
   raises env_commit_fails empty_world Cursor = None \<and>
   raises env_commit_fails empty_world Execute = None \<and>
   fst (initialize_db env_commit_fails empty_world) = Inl disk_full \<and>
   calls (snd (initialize_db env_commit_fails empty_world)) = [Connect, Cursor, Execute, Commit] \<and>
   stdout (snd (initialize_db env_commit_fails empty_world)) = [] \<and>
   raises env_ok (world_with index_db) Execute = Some index_error \<and>
   raises env_ok (world_with index_db) Connect = None \<and>
   raises env_ok (world_with index_db) Cursor = None \<and>
   fst (initialize_db env_ok (world_with index_db)) = Inl index_error \<and>
   calls (snd (initialize_db env_ok (world_with index_db))) = [Connect, Cursor, Execute]"
  using initialize_db_propagates [of env_commit_fails empty_world Commit disk_full]
    initialize_db_propagates [of env_ok "world_with index_db" Execute index_error]
  by (simp add: raises_def stmt_fresh stmt_error_cases)

section \<open>Existing rows\<close>

text \<open>
  C5. When the file at \<open>db_path\<close> already holds a table named \<^verbatim>\<open>subscribers\<close>, a run of
  \<open>initialize_db\<close>, successful or not, leaves every file as it was: the database is the same
  list of tables, each with the same rows in the same order.
\<close>

theorem initialize_db_keeps_rows:
  assumes "files w db_path = Some d" and "''subscribers'' \<in> set (map tbl_name (db_tables d))"
  shows "files (snd (initialize_db ev w)) = files w \<and>
         files (snd (initialize_db ev w)) db_path = Some d"
proof -
  have "has_table (files w) db_path ''subscribers''"
    using assms(1) table_named_exact [OF assms(2)] by (simp add: has_table_def)
  then have "db_after w = db_before w" by (rule stmt_taken(2))
  then have "db_before w = d" and "db_after w = d"
    using assms(1) by (simp_all add: db_before_some)
  moreover have "(files w)(db_path \<mapsto> d) = files w"
    using assms(1) by (simp add: map_upd_triv)
  ultimately have "files (snd (initialize_db ev w)) = files w"
    using run_files [of ev w] by auto
  then show ?thesis using assms(1) by simp
qed

theorem initialize_db_keeps_rows_witness:
  "files populated_world db_path = Some populated_db \<and>
   ''subscribers'' \<in> set (map tbl_name (db_tables populated_db)) \<and>
   map tbl_rows (db_tables populated_db)
     = [[[''k1'', ''s1'', ''2020-01-01''], [''k2'', ''s2'', '''']]] \<and>
   files (snd (initialize_db env_execute_fails populated_world)) db_path = Some populated_db \<and>
   files (snd (initialize_db env_ok populated_world)) db_path = Some populated_db"
  using initialize_db_keeps_rows [of populated_world populated_db env_ok]
    initialize_db_keeps_rows [of populated_world populated_db env_execute_fails]
  by (simp add: populated_world_def populated_db_def populated_table_def subscribers_table_def)

section \<open>The script\<close>

text \<open>
  C6. Run as a script, the program prints the line "Database initialized successfully!" exactly
  when \<open>initialize_db\<close> returned normally, and then exits with status 0. When \<open>initialize_db\<close>
  raised, the script ends with that exception, exit status 1, and standard output is what it
  was before.
\<close>

theorem script_prints_iff_success:
  "(fst (initialize_db ev w) = Inr () \<longrightarrow>
      fst (module_exec ''__main__'' ev w) = Inr () \<and>
      stdout (snd (module_exec ''__main__'' ev w)) =
        stdout w @ [''Database initialized successfully!''] \<and>
      exit_status (fst (module_exec ''__main__'' ev w)) = 0) \<and>
   (fst (initialize_db ev w) \<noteq> Inr () \<longrightarrow>
      fst (module_exec ''__main__'' ev w) = fst (initialize_db ev w) \<and>
      stdout (snd (module_exec ''__main__'' ev w)) = stdout w \<and>
      exit_status (fst (module_exec ''__main__'' ev w)) = 1)"
proof (cases "initialize_db ev w")
  case (Pair r w')
  have out: "stdout w' = stdout w" using run_stdout [of ev w] Pair by simp
  show ?thesis
  proof (cases r)
    case (Inl e)
    then show ?thesis using Pair out
      by (simp add: module_exec_def script_main_def bindE_def exit_status_def)
  next
    case (Inr u)
    then show ?thesis using Pair out
      by (simp add: module_exec_def script_main_def bindE_def exit_status_def print_line_def)
  qed
qed

theorem script_prints_iff_success_witness:
  "fst (initialize_db env_ok empty_world) = Inr () \<and>
   stdout (snd (module_exec ''__main__'' env_ok empty_world)) =
     [''Database initialized successfully!''] \<and>
   exit_status (fst (module_exec ''__main__'' env_ok empty_world)) = 0 \<and>
   fst (initialize_db env_connect_fails empty_world) \<noteq> Inr () \<and>
   stdout (snd (module_exec ''__main__'' env_connect_fails empty_world)) = [] \<and>
   exit_status (fst (module_exec ''__main__'' env_connect_fails empty_world)) = 1"
  using script_prints_iff_success [of env_ok empty_world]
    script_prints_iff_success [of env_connect_fails empty_world]
  by (simp add: run_success run_connect_fault stmt_fresh exit_status_def)

section \<open>A run that fails before the commit\<close>

text \<open>
  C7. Start where no file exists at \<open>db_path\<close> and let one of the calls before
  \<^verbatim>\<open>conn.commit()\<close> fail (connect, cursor or execute). Then the run raises, the location holds
  no table \<^verbatim>\<open>subscribers\<close> afterwards, and its schema catalog reads as before the run: empty.
  This holds in both transaction modes of the engine; that a failing call changes nothing is
  the engine's part.
\<close>

theorem failed_run_creates_no_table:
  assumes "files w db_path = None"
    and "fault ev Connect \<noteq> None \<or> fault ev Cursor \<noteq> None \<or> fault ev Execute \<noteq> None"
  shows "fst (initialize_db ev w) \<noteq> Inr () \<and>
         \<not> has_table (files (snd (initialize_db ev w))) db_path ''subscribers'' \<and>
         schema (files (snd (initialize_db ev w))) db_path = schema (files w) db_path"
proof (cases rule: run_exits [where ev = ev and w = w])
  case (connect e)
  then show ?thesis using assms(1) by (simp add: run_connect_fault has_table_def schema_def)
next
  case (cursor e)
  then show ?thesis using assms(1)
    by (simp add: run_cursor_fault has_table_def schema_def db_before_none)
       (simp add: empty_db_def)
next
  case (execute e)
  then show ?thesis using assms(1)
    by (simp add: run_execute_fault has_table_def schema_def db_before_none)
       (simp add: empty_db_def)
next
  case (statement e) then show ?thesis using assms(2) by simp
next
  case (commit e) then show ?thesis using assms(2) by simp
next
  case (close e) then show ?thesis using assms(2) by simp
next
  case ok then show ?thesis using assms(2) by simp
qed

theorem failed_run_creates_no_table_witness:
  "files empty_world db_path = None \<and>
   fault env_execute_fails Execute \<noteq> None \<and>
   fst (initialize_db env_execute_fails empty_world) = Inl disk_full \<and>
   \<not> has_table (files (snd (initialize_db env_execute_fails empty_world))) db_path
       ''subscribers'' \<and>
   schema (files (snd (initialize_db env_execute_fails empty_world))) db_path = ([], [], [])"
  using failed_run_creates_no_table [of empty_world env_execute_fails]
  by (simp add: run_execute_fault schema_def has_table_def empty_db_def)

section \<open>Creation of the file\<close>

text \<open>
  C8. After a successful run a file exists at \<open>db_path\<close>. When none existed before, it is the
  one file the run added; when one existed, the set of files is the same as before.
\<close>

theorem initialize_db_creates_file:
  assumes "fst (initialize_db ev w) = Inr ()"
  shows "files (snd (initialize_db ev w)) db_path \<noteq> None \<and>
         (files w db_path = None \<longrightarrow>
            dom (files (snd (initialize_db ev w))) = insert db_path (dom (files w))) \<and>
         (files w db_path \<noteq> None \<longrightarrow>
            dom (files (snd (initialize_db ev w))) = dom (files w))"
  using run_success_iff [OF assms] by (auto split: if_splits)

theorem initialize_db_creates_file_witness:
  "fst (initialize_db env_ok empty_world) = Inr () \<and>
   files empty_world db_path = None \<and>
   files (snd (initialize_db env_ok empty_world)) db_path \<noteq> None \<and>
   fst (initialize_db env_ok populated_world) = Inr () \<and>
   files populated_world db_path \<noteq> None \<and>
   dom (files (snd (initialize_db env_ok populated_world))) = dom (files populated_world)"
proof -
  have taken: "has_table (files populated_world) db_path ''subscribers''"
    by (simp add: has_table_def populated_world_def)
  have ok: "fst (initialize_db env_ok empty_world) = Inr ()"
    "fst (initialize_db env_ok populated_world) = Inr ()"
    by (simp_all add: run_success stmt_fresh stmt_taken(1) [OF taken])
  show ?thesis
    using initialize_db_creates_file [OF ok(1)] initialize_db_creates_file [OF ok(2)] ok
    by (simp add: populated_world_def)
qed

section \<open>The storage location\<close>

text \<open>
  C9 (as the code has it). \<open>initialize_db\<close> takes no storage location: the location is the
  module constant \<open>db_path\<close>, the literal \<^verbatim>\<open>/your/path/to/data.db\<close>. No run touches a file at
  any other path, a successful run leaves a file at that one, and a run either raises or
  returns the one value without content (Python's \<^verbatim>\<open>None\<close>).
\<close>

theorem initialize_db_location_fixed:
  "db_path = ''/your/path/to/data.db'' \<and>
   (\<forall>p. p \<noteq> ''/your/path/to/data.db'' \<longrightarrow> files (snd (initialize_db ev w)) p = files w p) \<and>
   (fst (initialize_db ev w) = Inr () \<longrightarrow>
      files (snd (initialize_db ev w)) ''/your/path/to/data.db'' \<noteq> None) \<and>
   (fst (initialize_db ev w) = Inr () \<or> (\<exists>e. fst (initialize_db ev w) = Inl e))"
proof -
  have p: "db_path = ''/your/path/to/data.db''" by (simp add: db_path_def)
  have "files (snd (initialize_db ev w)) q = files w q" if "q \<noteq> db_path" for q
    using run_files [of ev w] that by auto
  moreover have "fst (initialize_db ev w) = Inr () \<longrightarrow>
      files (snd (initialize_db ev w)) db_path \<noteq> None"
    using run_success_iff [of ev w] by auto
  moreover have "fst (initialize_db ev w) = Inr () \<or> (\<exists>e. fst (initialize_db ev w) = Inl e)"
    by (cases "fst (initialize_db ev w)") auto
  ultimately show ?thesis unfolding p by blast
qed

theorem initialize_db_location_fixed_witness:
  "''/tmp/test.db'' \<noteq> ''/your/path/to/data.db'' \<and>
   files (snd (initialize_db env_ok empty_world)) ''/tmp/test.db''
     = files empty_world ''/tmp/test.db'' \<and>
   fst (initialize_db env_ok empty_world) = Inr () \<and>
   files (snd (initialize_db env_ok empty_world)) ''/your/path/to/data.db'' \<noteq> None"
  using initialize_db_location_fixed [of env_ok empty_world]
  by (simp add: run_success stmt_fresh db_path_def)

text \<open>
  C9 as stated fails: the operation cannot be given a location. With no file anywhere, a caller
  who wants the database at \<^verbatim>\<open>/tmp/test.db\<close> gets a successful run that leaves no file there
  and the new table at \<^verbatim>\<open>/your/path/to/data.db\<close>.
\<close>

theorem initialize_db_other_path_counterexample:
  "fst (initialize_db env_ok empty_world) = Inr () \<and>
   files (snd (initialize_db env_ok empty_world)) ''/tmp/test.db'' = None \<and>
   files (snd (initialize_db env_ok empty_world)) ''/your/path/to/data.db''
     = Some \<lparr>db_tables = [subscribers_table], db_views = [], db_user_indexes = []\<rparr>"
  by (simp add: run_success stmt_fresh db_path_def)

section \<open>Import of the module\<close>

text \<open>
  C10. Evaluating the module under any name but \<^verbatim>\<open>__main__\<close> (an import) returns normally and
  leaves the world as it was: no file touched, no connection opened, no engine call made,
  nothing printed. Under \<^verbatim>\<open>__main__\<close> the module runs the script body, whose first engine call
  is \<^verbatim>\<open>connect\<close>.
\<close>

theorem import_has_no_effect:
  "(name \<noteq> ''__main__'' \<longrightarrow> module_exec name ev w = (Inr (), w)) \<and>
   module_exec ''__main__'' ev w = script_main ev w \<and>
   take (Suc (length (calls w))) (calls (snd (module_exec ''__main__'' ev w))) = calls w @ [Connect]"
proof -
  have "calls (snd (script_main ev w)) = calls (snd (initialize_db ev w))"
    by (cases "initialize_db ev w")
       (auto simp: script_main_def bindE_def print_line_def split: sum.splits)
  then show ?thesis using run_first_call [of w ev] by (simp add: module_exec_def)
qed

theorem import_has_no_effect_witness:
  "''db_init'' \<noteq> ''__main__'' \<and>
   module_exec ''db_init'' env_ok empty_world = (Inr (), empty_world) \<and>
   calls (snd (module_exec ''__main__'' env_ok empty_world))
     = [Connect, Cursor, Execute, Commit, Close] \<and>
   stdout (snd (module_exec ''__main__'' env_ok empty_world))
     = [''Database initialized successfully!'']"
  using import_has_no_effect [of "''db_init''" env_ok empty_world]
  by (simp add: module_exec_def script_main_def bindE_def print_line_def run_success
      stmt_fresh)

end
